theory Spec2Isabelle
  imports Main "HOL-Library.Sublist"
begin

section \<open>The command \<open>list regions\<close> of moactl (cmd/list/region/cmd.go)\<close>

text \<open>
  The command is one Go procedure, \<open>run\<close>. It talks to four collaborators whose code is
  not part of the file: the OCM connection, the AWS client, the region provider and the
  reporter. The model takes what the collaborators return as a parameter (the record
  \<open>env\<close>) and records what \<open>run\<close> does to them, in order, as a list of events. The
  result of \<open>run\<close> is that list together with the way the procedure ends: it returns,
  it calls \<open>os.Exit\<close>, or it panics.

  The model starts after lines 59 and 60 (\<open>CreateReporterOrExit\<close>,
  \<open>CreateLoggerOrExit\<close>): both either return or end the process themselves.
\<close>

subsection \<open>Data\<close>

text \<open>A region of the API, read through its four accessor methods.\<close>

record region =
  ID :: string
  DisplayName :: string
  Enabled :: bool
  SupportsMultiAZ :: bool

text \<open>
  The command line: \<open>Changed\<close> is \<open>cmd.Flags().Changed("multi-az")\<close>, \<open>multiAZ\<close> is the
  variable \<open>args.multiAZ\<close> the flag is bound to.
\<close>

record flags =
  Changed :: bool
  multiAZ :: bool

text \<open>A Go error is modelled by its text, which is what \<open>%v\<close> prints; \<open>None\<close> is \<open>nil\<close>.\<close>

type_synonym error = string

record access_key =
  AccessKeyID :: string
  SecretAccessKey :: string

text \<open>
  \<open>cluster.CCS\<close> with its nested \<open>cluster.AWSCredentials\<close>, flattened to three fields.
\<close>

record ccs =
  CCS_Enabled :: bool
  AWS_AccessKeyID :: string
  AWS_SecretAccessKey :: string

text \<open>
  A method call on a value that may be \<open>nil\<close> either panics (nil dereference) or returns.
\<close>

datatype 'a outcome = Panics | Returns 'a

text \<open>
  The AWS client that \<open>aws.NewClient().Build()\<close> hands back, described by what its
  method \<open>GetAWSAccessKeys\<close> does when called: it panics (a nil client), or it returns an
  access key (\<open>None\<close> is a nil pointer) and an error.
\<close>

record aws_client =
  GetAWSAccessKeys :: "(access_key option \<times> error option) outcome"

text \<open>
  What the collaborators return in one invocation. \<open>AdminUserName\<close> is the constant
  \<open>aws.AdminUserName\<close>, declared outside the file.
\<close>

record env =
  ocm_Build :: "error option"
  ocm_Close :: "error option"
  aws_Build :: "aws_client \<times> error option"
  AdminUserName :: string
  GetRegions :: "string \<Rightarrow> ccs \<Rightarrow> region list \<times> error option"

text \<open>
  What \<open>run\<close> does that can be seen from outside: calls to collaborators, messages given
  to the reporter, text formatted into the tab writer, and the flush of the tab writer
  to standard output.
\<close>

datatype callee =
  OCM_Build | OCM_Close | AWS_Build | AWS_GetAWSAccessKeys | Provider_GetRegions

datatype event =
  Call callee
  | Errorf string
  | Warnf string
  | Debugf string
  | Fprintf string
  | Flush

datatype ending = Returned | Exited int | Panicked

type_synonym result = "event list \<times> ending"

subsection \<open>Formatting\<close>

definition tab :: char where
  "tab = CHR 0x09"

definition newline :: char where
  "newline = CHR 0x0A"

text \<open>The header, line 117: \<open>"ID\t\tNAME\t\tMULTI-AZ SUPPORT\n"\<close>.\<close>

definition header :: string where
  "header = ''ID'' @ [tab, tab] @ ''NAME'' @ [tab, tab] @ ''MULTI-AZ SUPPORT'' @ [newline]"

text \<open>The verb \<open>%t\<close> of Go's \<open>fmt\<close>.\<close>

definition format_bool :: "bool \<Rightarrow> string" where
  "format_bool b = (if b then ''true'' else ''false'')"

text \<open>One row, lines 128 to 133: \<open>"%s\t\t%s\t\t%t\n"\<close>.\<close>

definition format_row :: "region \<Rightarrow> string" where
  "format_row r =
     ID r @ [tab, tab] @ DisplayName r @ [tab, tab] @ format_bool (SupportsMultiAZ r)
       @ [newline]"

subsection \<open>The procedure\<close>

text \<open>The loop of lines 119 to 134; each \<open>continue\<close> is a recursive call on the rest.\<close>

fun print_regions :: "flags \<Rightarrow> region list \<Rightarrow> event list" where
  "print_regions fl [] = []"
| "print_regions fl (r # rs) =
     (if \<not> Enabled r then print_regions fl rs
      else if Changed fl \<and> multiAZ fl \<noteq> SupportsMultiAZ r then print_regions fl rs
      else Fprintf (format_row r) # print_regions fl rs)"

text \<open>Lines 110 to 135: the check for an empty answer, the header, the loop, the flush.\<close>

definition list_regions :: "flags \<Rightarrow> region list \<Rightarrow> result" where
  "list_regions fl regions =
     (if length regions = 0
      then ([Warnf ''There are no regions available for this AWS account''], Exited 1)
      else (Fprintf header # print_regions fl regions @ [Flush], Returned))"

text \<open>
  Lines 77 to 108, followed by \<open>list_regions\<close>: the part of \<open>run\<close> that executes after
  the deferred close has been registered.
\<close>

definition body :: "env \<Rightarrow> flags \<Rightarrow> result" where
  "body e fl =
     (let (awsClient, err) = aws_Build e;
          t1 = Call AWS_Build #
               (case err of
                  Some x \<Rightarrow> [Errorf (''Failed to create AWS client: '' @ x)]
                | None \<Rightarrow> [])
      in case GetAWSAccessKeys awsClient of
           Panics \<Rightarrow> (t1 @ [Call AWS_GetAWSAccessKeys], Panicked)
         | Returns (awsAccessKey, err) \<Rightarrow>
             (let t2 = t1 @ Call AWS_GetAWSAccessKeys #
                       (case err of
                          Some x \<Rightarrow>
                            [Errorf (''Failed to get access keys for user '' @ [CHR 0x27]
                                       @ AdminUserName e @ [CHR 0x27] @ '': '' @ x)]
                        | None \<Rightarrow> [])
                       @ [Debugf ''Fetching regions'']
              in case awsAccessKey of
                   None \<Rightarrow> (t2, Panicked)
                 | Some k \<Rightarrow>
                     (let (regions, err) =
                            GetRegions e ''aws''
                              \<lparr>CCS_Enabled = True,
                               AWS_AccessKeyID = AccessKeyID k,
                               AWS_SecretAccessKey = SecretAccessKey k\<rparr>;
                          t3 = t2 @ [Call Provider_GetRegions]
                      in case err of
                           Some x \<Rightarrow>
                             (t3 @ [Errorf (''Failed to fetch regions: '' @ x)], Exited 1)
                         | None \<Rightarrow>
                             (let (t4, how) = list_regions fl regions
                              in (t3 @ t4, how)))))"

text \<open>The deferred function of lines 70 to 75.\<close>

definition deferred_close :: "env \<Rightarrow> event list" where
  "deferred_close e =
     Call OCM_Close #
     (case ocm_Close e of
        Some x \<Rightarrow> [Errorf (''Failed to close OCM connection: '' @ x)]
      | None \<Rightarrow> [])"

text \<open>
  The whole procedure. Go runs deferred functions when the procedure returns and when it
  panics; \<open>os.Exit\<close> ends the program at once and runs none of them.
\<close>

definition run :: "env \<Rightarrow> flags \<Rightarrow> result" where
  "run e fl =
     (case ocm_Build e of
        Some x \<Rightarrow>
          ([Call OCM_Build, Errorf (''Failed to create OCM connection: '' @ x)], Exited 1)
      | None \<Rightarrow>
          (let (t, how) = body e fl
           in case how of
                Exited n \<Rightarrow> (Call OCM_Build # t, Exited n)
              | Returned \<Rightarrow> (Call OCM_Build # t @ deferred_close e, Returned)
              | Panicked \<Rightarrow> (Call OCM_Build # t @ deferred_close e, Panicked)))"

subsection \<open>Observations on a result\<close>

text \<open>
  Modelled from the spec: the caller of \<open>run\<close> (the program's \<open>main\<close>, not in the file)
  ends the process with exit code 0 when \<open>run\<close> returns. \<open>os.Exit n\<close> ends it with \<open>n\<close>,
  and the Go runtime ends a panicking program with 2.
\<close>

fun exit_code :: "ending \<Rightarrow> int" where
  "exit_code Returned = 0"
| "exit_code (Exited n) = n"
| "exit_code Panicked = 2"

text \<open>The lines formatted into the tab writer, in order.\<close>

fun table_lines :: "event list \<Rightarrow> string list" where
  "table_lines [] = []"
| "table_lines (Fprintf s # t) = s # table_lines t"
| "table_lines (_ # t) = table_lines t"

text \<open>The lines after the first one: the data rows of a table that has a header.\<close>

definition printed_rows :: "event list \<Rightarrow> string list" where
  "printed_rows t = tl (table_lines t)"

text \<open>
  The answer of the region fetch when \<open>run\<close> gets as far as making it, \<open>None\<close> when it
  ends earlier.
\<close>

definition fetched :: "env \<Rightarrow> (region list \<times> error option) option" where
  "fetched e =
     (case ocm_Build e of
        Some x \<Rightarrow> None
      | None \<Rightarrow>
          (case GetAWSAccessKeys (fst (aws_Build e)) of
             Panics \<Rightarrow> None
           | Returns (None, err) \<Rightarrow> None
           | Returns (Some k, err) \<Rightarrow>
               Some (GetRegions e ''aws''
                       \<lparr>CCS_Enabled = True,
                        AWS_AccessKeyID = AccessKeyID k,
                        AWS_SecretAccessKey = SecretAccessKey k\<rparr>)))"

text \<open>The events of \<open>run\<close> up to and including the call of the region fetch.\<close>

definition prelude :: "env \<Rightarrow> event list" where
  "prelude e =
     [Call OCM_Build, Call AWS_Build]
     @ (case snd (aws_Build e) of
          Some x \<Rightarrow> [Errorf (''Failed to create AWS client: '' @ x)]
        | None \<Rightarrow> [])
     @ [Call AWS_GetAWSAccessKeys]
     @ (case GetAWSAccessKeys (fst (aws_Build e)) of
          Returns (k, Some x) \<Rightarrow>
            [Errorf (''Failed to get access keys for user '' @ [CHR 0x27]
                       @ AdminUserName e @ [CHR 0x27] @ '': '' @ x)]
        | _ \<Rightarrow> [])
     @ [Debugf ''Fetching regions'', Call Provider_GetRegions]"

subsection \<open>A sample invocation\<close>

text \<open>
  Three regions, the second one disabled, the third one without multi-AZ support, and
  an environment in which every collaborator succeeds and the region fetch answers
  \<open>answer\<close>.
\<close>

definition example_regions :: "region list" where
  "example_regions =
     [\<lparr>ID = ''us-east-1'', DisplayName = ''US East'', Enabled = True, SupportsMultiAZ = True\<rparr>,
      \<lparr>ID = ''us-west-1'', DisplayName = ''US West'', Enabled = False, SupportsMultiAZ = True\<rparr>,
      \<lparr>ID = ''eu-west-1'', DisplayName = ''EU West'', Enabled = True, SupportsMultiAZ = False\<rparr>]"

definition example_env :: "region list \<times> error option \<Rightarrow> env" where
  "example_env answer =
     \<lparr>ocm_Build = None,
      ocm_Close = None,
      aws_Build =
        (\<lparr>GetAWSAccessKeys =
            Returns (Some \<lparr>AccessKeyID = ''AKIA'', SecretAccessKey = ''secret''\<rparr>, None)\<rparr>,
         None),
      AdminUserName = ''osdCcsAdmin'',
      GetRegions = (\<lambda>provider c. if provider = ''aws'' \<and> CCS_Enabled c then answer
                                   else ([], Some ''unknown provider''))\<rparr>"

text \<open>
  The same environment when both the construction of the AWS client and the retrieval of
  the access keys fail, each returning a usable value beside its error.
\<close>

definition failing_aws_env :: env where
  "failing_aws_env =
     example_env (example_regions, None)
       \<lparr>aws_Build :=
          (\<lparr>GetAWSAccessKeys =
              Returns (Some \<lparr>AccessKeyID = [], SecretAccessKey = []\<rparr>, Some ''stack not found'')\<rparr>,
           Some ''no credentials'')\<rparr>"

text \<open>Two regions of which none passes the filter for \<open>--multi-az=true\<close>.\<close>

definition disabled_regions :: "region list" where
  "disabled_regions =
     [\<lparr>ID = ''us-west-1'', DisplayName = ''US West'', Enabled = False, SupportsMultiAZ = True\<rparr>,
      \<lparr>ID = ''eu-west-1'', DisplayName = ''EU West'', Enabled = True, SupportsMultiAZ = False\<rparr>]"

section \<open>Properties\<close>

subsection \<open>The run up to the fetch\<close>

lemma table_lines_append: "table_lines (a @ b) = table_lines a @ table_lines b"
  by (induction a rule: table_lines.induct) simp_all

lemma table_lines_prelude: "table_lines (prelude e) = []"
  by (simp add: prelude_def table_lines_append split: option.splits outcome.splits prod.splits)

lemma run_fetched:
  assumes "fetched e = Some (regions, err)"
  shows "run e fl =
           (case err of
              Some x \<Rightarrow> (prelude e @ [Errorf (''Failed to fetch regions: '' @ x)], Exited 1)
            | None \<Rightarrow>
                (case snd (list_regions fl regions) of
                   Exited n \<Rightarrow> (prelude e @ fst (list_regions fl regions), Exited n)
                 | how \<Rightarrow> (prelude e @ fst (list_regions fl regions) @ deferred_close e, how)))"
  using assms
  by (auto simp: fetched_def run_def body_def prelude_def list_regions_def Let_def
           split: option.splits outcome.splits prod.splits ending.splits if_splits)

lemma run_table:
  assumes "fetched e = Some (regions, None)" and "regions \<noteq> []"
  shows "run e fl =
           (prelude e @ Fprintf header # print_regions fl regions @ [Flush] @ deferred_close e,
            Returned)"
  using assms by (simp add: run_fetched list_regions_def)

lemma run_empty:
  assumes "fetched e = Some ([], None)"
  shows "run e fl =
           (prelude e @ [Warnf ''There are no regions available for this AWS account''],
            Exited 1)"
  using assms by (simp add: run_fetched list_regions_def)

lemma run_fetch_error:
  assumes "fetched e = Some (regions, Some x)"
  shows "run e fl = (prelude e @ [Errorf (''Failed to fetch regions: '' @ x)], Exited 1)"
  using assms by (simp add: run_fetched)

text \<open>\<open>fetched\<close> is \<open>None\<close> exactly when \<open>run\<close> never calls the region fetch.\<close>

lemma fetch_not_called:
  assumes "fetched e = None"
  shows "Call Provider_GetRegions \<notin> set (fst (run e fl))"
  using assms
  by (auto simp: fetched_def run_def body_def deferred_close_def Let_def
           split: option.splits outcome.splits prod.splits ending.splits if_splits)

lemma fetch_called:
  assumes "fetched e = Some answer"
  shows "Call Provider_GetRegions \<in> set (fst (run e fl))"
proof -
  obtain regions err where "answer = (regions, err)"
    by (cases answer)
  with assms have "fetched e = Some (regions, err)"
    by simp
  then show ?thesis
    by (simp add: run_fetched prelude_def split: option.splits ending.splits)
qed

subsection \<open>The lines of the table\<close>

lemma table_lines_map_Fprintf: "table_lines (map Fprintf ls) = ls"
  by (induction ls) simp_all

lemma table_lines_deferred_close: "table_lines (deferred_close e) = []"
  by (simp add: deferred_close_def split: option.splits)

text \<open>The loop prints the rows of the regions that pass both tests, in their order.\<close>

lemma print_regions_filter:
  "print_regions fl rs =
     map Fprintf
       (map format_row
          (filter (\<lambda>r. Enabled r \<and> (Changed fl \<longrightarrow> SupportsMultiAZ r = multiAZ fl)) rs))"
  by (induction rs) auto

lemma table_lines_print_regions:
  "table_lines (print_regions fl rs) =
     map format_row
       (filter (\<lambda>r. Enabled r \<and> (Changed fl \<longrightarrow> SupportsMultiAZ r = multiAZ fl)) rs)"
  by (simp only: print_regions_filter table_lines_map_Fprintf)

lemma table_lines_run:
  assumes "fetched e = Some (regions, None)"
  shows "table_lines (fst (run e fl)) =
           (if regions = [] then []
            else header # table_lines (print_regions fl regions))"
  using assms
  by (cases "regions = []")
     (simp_all add: run_table run_empty table_lines_append table_lines_prelude
        table_lines_deferred_close)

lemma printed_rows_run:
  assumes "fetched e = Some (regions, None)"
  shows "printed_rows (fst (run e fl)) = table_lines (print_regions fl regions)"
  using assms by (simp add: printed_rows_def table_lines_run)

lemma fetched_example: "fetched (example_env answer) = Some answer"
  by (simp add: fetched_def example_env_def)

subsection \<open>Filtering\<close>

text \<open>
  C1. Whatever sequence of regions the fetch returns, when the flag \<open>multi-az\<close> was not
  given on the command line the procedure prints the header followed by the rows of
  exactly the regions whose enabled flag is true, in the order of the fetched sequence,
  flushes them to standard output, closes the connection and returns. (For the empty
  sequence it prints no line at all, which are the rows of no region.)
\<close>

theorem unset_flag_prints_enabled_regions:
  assumes "fetched e = Some (regions, None)" and "Changed fl = False"
  shows "run e fl =
           (if regions = []
            then (prelude e @ [Warnf ''There are no regions available for this AWS account''],
                  Exited 1)
            else (prelude e
                  @ map Fprintf
                      ((''ID'' @ [tab, tab] @ ''NAME'' @ [tab, tab] @ ''MULTI-AZ SUPPORT''
                          @ [newline])
                       # map format_row (filter Enabled regions))
                  @ [Flush] @ deferred_close e,
                  Returned))
         \<and> table_lines (fst (run e fl)) =
             (if regions = [] then []
              else (''ID'' @ [tab, tab] @ ''NAME'' @ [tab, tab] @ ''MULTI-AZ SUPPORT''
                      @ [newline])
                   # map format_row (filter Enabled regions))
         \<and> printed_rows (fst (run e fl)) = map format_row (filter Enabled regions)"
proof -
  have rows: "print_regions fl regions = map Fprintf (map format_row (filter Enabled regions))"
    using assms(2) by (simp add: print_regions_filter)
  have lines: "table_lines (print_regions fl regions) = map format_row (filter Enabled regions)"
    using assms(2) by (simp add: table_lines_print_regions)
  have 1: "run e fl =
             (if regions = []
              then (prelude e @ [Warnf ''There are no regions available for this AWS account''],
                    Exited 1)
              else (prelude e
                    @ map Fprintf
                        ((''ID'' @ [tab, tab] @ ''NAME'' @ [tab, tab] @ ''MULTI-AZ SUPPORT''
                            @ [newline])
                         # map format_row (filter Enabled regions))
                    @ [Flush] @ deferred_close e,
                    Returned))"
  proof (cases "regions = []")
    case True
    with assms(1) show ?thesis
      by (simp add: run_empty)
  next
    case False
    with assms(1) show ?thesis
      by (simp add: run_table rows header_def)
  qed
  have 2: "table_lines (fst (run e fl)) =
             (if regions = [] then []
              else (''ID'' @ [tab, tab] @ ''NAME'' @ [tab, tab] @ ''MULTI-AZ SUPPORT''
                      @ [newline])
                   # map format_row (filter Enabled regions))"
    using assms(1) by (simp add: table_lines_run lines header_def)
  have 3: "printed_rows (fst (run e fl)) = map format_row (filter Enabled regions)"
    using assms(1) by (simp add: printed_rows_run lines)
  from 1 2 3 show ?thesis
    by (intro conjI)
qed

theorem unset_flag_prints_enabled_regions_witness:
  "fetched (example_env (example_regions, None)) = Some (example_regions, None)
   \<and> fetched (example_env ([], None)) = Some ([], None)
   \<and> Changed \<lparr>Changed = False, multiAZ = False\<rparr> = False
   \<and> run (example_env (example_regions, None)) \<lparr>Changed = False, multiAZ = False\<rparr> =
       ([Call OCM_Build, Call AWS_Build, Call AWS_GetAWSAccessKeys,
         Debugf ''Fetching regions'', Call Provider_GetRegions,
         Fprintf (''ID'' @ [tab, tab] @ ''NAME'' @ [tab, tab] @ ''MULTI-AZ SUPPORT'' @ [newline]),
         Fprintf (''us-east-1'' @ [tab, tab] @ ''US East'' @ [tab, tab] @ ''true'' @ [newline]),
         Fprintf (''eu-west-1'' @ [tab, tab] @ ''EU West'' @ [tab, tab] @ ''false'' @ [newline]),
         Flush, Call OCM_Close],
        Returned)
   \<and> table_lines (fst (run (example_env ([], None)) \<lparr>Changed = False, multiAZ = False\<rparr>)) = []"
proof -
  have h: "fetched (example_env (example_regions, None)) = Some (example_regions, None)"
    by (rule fetched_example)
  have h0: "fetched (example_env ([], None)) = Some ([], None)"
    by (rule fetched_example)
  have c: "Changed \<lparr>Changed = False, multiAZ = False\<rparr> = False"
    by simp
  have p: "prelude (example_env answer) =
             [Call OCM_Build, Call AWS_Build, Call AWS_GetAWSAccessKeys,
              Debugf ''Fetching regions'', Call Provider_GetRegions]" for answer
    by (simp add: prelude_def example_env_def)
  have d: "deferred_close (example_env answer) = [Call OCM_Close]" for answer
    by (simp add: deferred_close_def example_env_def)
  show ?thesis
    using h h0 c unset_flag_prints_enabled_regions [OF h c] unset_flag_prints_enabled_regions [OF h0 c]
    by (simp add: p d example_regions_def format_row_def format_bool_def)
qed

text \<open>
  C2. When the flag \<open>multi-az\<close> was given with the value \<open>v\<close>, the procedure prints the
  header followed by the rows of exactly the enabled regions whose multi-AZ support equals
  \<open>v\<close>, in the original order, and flushes them. When the flag was not given, no region
  is dropped for its multi-AZ support, whatever value \<open>d\<close> the flag variable holds: the
  header is followed by the rows of all enabled regions.
\<close>

theorem explicit_flag_filters_by_multi_az:
  assumes "fetched e = Some (regions, None)"
  shows "run e \<lparr>Changed = True, multiAZ = v\<rparr> =
           (if regions = []
            then (prelude e @ [Warnf ''There are no regions available for this AWS account''],
                  Exited 1)
            else (prelude e
                  @ map Fprintf
                      ((''ID'' @ [tab, tab] @ ''NAME'' @ [tab, tab] @ ''MULTI-AZ SUPPORT''
                          @ [newline])
                       # map format_row
                           (filter (\<lambda>r. Enabled r \<and> SupportsMultiAZ r = v) regions))
                  @ [Flush] @ deferred_close e,
                  Returned))
         \<and> run e \<lparr>Changed = False, multiAZ = d\<rparr> =
           (if regions = []
            then (prelude e @ [Warnf ''There are no regions available for this AWS account''],
                  Exited 1)
            else (prelude e
                  @ map Fprintf
                      ((''ID'' @ [tab, tab] @ ''NAME'' @ [tab, tab] @ ''MULTI-AZ SUPPORT''
                          @ [newline])
                       # map format_row (filter Enabled regions))
                  @ [Flush] @ deferred_close e,
                  Returned))
         \<and> printed_rows (fst (run e \<lparr>Changed = True, multiAZ = v\<rparr>))
           = map format_row (filter (\<lambda>r. Enabled r \<and> SupportsMultiAZ r = v) regions)
         \<and> printed_rows (fst (run e \<lparr>Changed = False, multiAZ = d\<rparr>))
           = map format_row (filter Enabled regions)"
proof -
  have on: "print_regions \<lparr>Changed = True, multiAZ = v\<rparr> regions =
              map Fprintf
                (map format_row (filter (\<lambda>r. Enabled r \<and> SupportsMultiAZ r = v) regions))"
    by (simp add: print_regions_filter)
  have off: "print_regions \<lparr>Changed = False, multiAZ = d\<rparr> regions =
               map Fprintf (map format_row (filter Enabled regions))"
    by (simp add: print_regions_filter)
  have rows: "printed_rows (fst (run e \<lparr>Changed = True, multiAZ = v\<rparr>))
                = map format_row (filter (\<lambda>r. Enabled r \<and> SupportsMultiAZ r = v) regions)
              \<and> printed_rows (fst (run e \<lparr>Changed = False, multiAZ = d\<rparr>))
                = map format_row (filter Enabled regions)"
    using assms by (simp add: printed_rows_run table_lines_print_regions)
  show ?thesis
  proof (cases "regions = []")
    case True
    with assms rows show ?thesis
      by (simp add: run_empty)
  next
    case False
    with assms rows show ?thesis
      by (simp add: run_table on off header_def)
  qed
qed

theorem explicit_flag_filters_by_multi_az_witness:
  "fetched (example_env (example_regions, None)) = Some (example_regions, None)
   \<and> run (example_env (example_regions, None)) \<lparr>Changed = True, multiAZ = True\<rparr> =
       ([Call OCM_Build, Call AWS_Build, Call AWS_GetAWSAccessKeys,
         Debugf ''Fetching regions'', Call Provider_GetRegions,
         Fprintf (''ID'' @ [tab, tab] @ ''NAME'' @ [tab, tab] @ ''MULTI-AZ SUPPORT'' @ [newline]),
         Fprintf (''us-east-1'' @ [tab, tab] @ ''US East'' @ [tab, tab] @ ''true'' @ [newline]),
         Flush, Call OCM_Close],
        Returned)
   \<and> run (example_env (example_regions, None)) \<lparr>Changed = False, multiAZ = True\<rparr> =
       ([Call OCM_Build, Call AWS_Build, Call AWS_GetAWSAccessKeys,
         Debugf ''Fetching regions'', Call Provider_GetRegions,
         Fprintf (''ID'' @ [tab, tab] @ ''NAME'' @ [tab, tab] @ ''MULTI-AZ SUPPORT'' @ [newline]),
         Fprintf (''us-east-1'' @ [tab, tab] @ ''US East'' @ [tab, tab] @ ''true'' @ [newline]),
         Fprintf (''eu-west-1'' @ [tab, tab] @ ''EU West'' @ [tab, tab] @ ''false'' @ [newline]),
         Flush, Call OCM_Close],
        Returned)"
proof -
  have h: "fetched (example_env (example_regions, None)) = Some (example_regions, None)"
    by (rule fetched_example)
  have p: "prelude (example_env answer) =
             [Call OCM_Build, Call AWS_Build, Call AWS_GetAWSAccessKeys,
              Debugf ''Fetching regions'', Call Provider_GetRegions]" for answer
    by (simp add: prelude_def example_env_def)
  have d: "deferred_close (example_env answer) = [Call OCM_Close]" for answer
    by (simp add: deferred_close_def example_env_def)
  show ?thesis
    using h explicit_flag_filters_by_multi_az [OF h, of True True]
    by (simp add: p d example_regions_def format_row_def format_bool_def)
qed

text \<open>
  C3. For every fetched sequence and every state of the flag, all that the procedure
  prints is the header followed by the rows of a subsequence of the fetched regions in
  which every region is enabled: no line of the output belongs to a disabled region.
\<close>

theorem disabled_regions_never_printed:
  assumes "fetched e = Some (regions, None)"
  shows "\<exists>ys. subseq ys regions \<and> list_all Enabled ys
              \<and> run e fl =
                  (if regions = []
                   then (prelude e
                         @ [Warnf ''There are no regions available for this AWS account''],
                         Exited 1)
                   else (prelude e
                         @ map Fprintf
                             ((''ID'' @ [tab, tab] @ ''NAME'' @ [tab, tab]
                                 @ ''MULTI-AZ SUPPORT'' @ [newline])
                              # map format_row ys)
                         @ [Flush] @ deferred_close e,
                         Returned))
              \<and> table_lines (fst (run e fl)) =
                  (if regions = [] then []
                   else (''ID'' @ [tab, tab] @ ''NAME'' @ [tab, tab] @ ''MULTI-AZ SUPPORT''
                           @ [newline])
                        # map format_row ys)
              \<and> printed_rows (fst (run e fl)) = map format_row ys"
proof -
  let ?ys = "filter (\<lambda>r. Enabled r \<and> (Changed fl \<longrightarrow> SupportsMultiAZ r = multiAZ fl)) regions"
  have 1: "subseq ?ys regions"
    by simp
  have 2: "list_all Enabled ?ys"
    by (simp add: list_all_iff)
  have 3: "printed_rows (fst (run e fl)) = map format_row ?ys"
    using assms by (simp add: printed_rows_run table_lines_print_regions)
  have 4: "table_lines (fst (run e fl)) =
             (if regions = [] then []
              else (''ID'' @ [tab, tab] @ ''NAME'' @ [tab, tab] @ ''MULTI-AZ SUPPORT''
                      @ [newline])
                   # map format_row ?ys)"
    using assms by (simp add: table_lines_run table_lines_print_regions header_def)
  have 5: "run e fl =
             (if regions = []
              then (prelude e
                    @ [Warnf ''There are no regions available for this AWS account''],
                    Exited 1)
              else (prelude e
                    @ map Fprintf
                        ((''ID'' @ [tab, tab] @ ''NAME'' @ [tab, tab]
                            @ ''MULTI-AZ SUPPORT'' @ [newline])
                         # map format_row ?ys)
                    @ [Flush] @ deferred_close e,
                    Returned))"
  proof (cases "regions = []")
    case True
    with assms show ?thesis
      by (simp add: run_empty)
  next
    case False
    with assms show ?thesis
      by (simp add: run_table print_regions_filter header_def)
  qed
  from 1 2 3 4 5 show ?thesis
    by blast
qed

theorem disabled_regions_never_printed_witness:
  "fetched (example_env (example_regions, None)) = Some (example_regions, None)
   \<and> (\<exists>ys. subseq ys example_regions \<and> list_all Enabled ys
            \<and> run (example_env (example_regions, None)) \<lparr>Changed = True, multiAZ = False\<rparr> =
                ([Call OCM_Build, Call AWS_Build, Call AWS_GetAWSAccessKeys,
                  Debugf ''Fetching regions'', Call Provider_GetRegions]
                 @ map Fprintf
                     ((''ID'' @ [tab, tab] @ ''NAME'' @ [tab, tab] @ ''MULTI-AZ SUPPORT''
                         @ [newline])
                      # map format_row ys)
                 @ [Flush, Call OCM_Close],
                 Returned)
            \<and> table_lines
                 (fst (run (example_env (example_regions, None))
                         \<lparr>Changed = True, multiAZ = False\<rparr>))
               = (''ID'' @ [tab, tab] @ ''NAME'' @ [tab, tab] @ ''MULTI-AZ SUPPORT'' @ [newline])
                 # map format_row ys)"
proof -
  have h: "fetched (example_env (example_regions, None)) = Some (example_regions, None)"
    by (rule fetched_example)
  have n: "example_regions \<noteq> []"
    by (simp add: example_regions_def)
  have p: "prelude (example_env answer) =
             [Call OCM_Build, Call AWS_Build, Call AWS_GetAWSAccessKeys,
              Debugf ''Fetching regions'', Call Provider_GetRegions]" for answer
    by (simp add: prelude_def example_env_def)
  have d: "deferred_close (example_env answer) = [Call OCM_Close]" for answer
    by (simp add: deferred_close_def example_env_def)
  from disabled_regions_never_printed [OF h, of "\<lparr>Changed = True, multiAZ = False\<rparr>"]
  obtain ys where
    "subseq ys example_regions" "list_all Enabled ys"
    "run (example_env (example_regions, None)) \<lparr>Changed = True, multiAZ = False\<rparr> =
       (prelude (example_env (example_regions, None))
        @ map Fprintf
            ((''ID'' @ [tab, tab] @ ''NAME'' @ [tab, tab] @ ''MULTI-AZ SUPPORT'' @ [newline])
             # map format_row ys)
        @ [Flush] @ deferred_close (example_env (example_regions, None)),
        Returned)"
    "table_lines
       (fst (run (example_env (example_regions, None)) \<lparr>Changed = True, multiAZ = False\<rparr>))
     = (''ID'' @ [tab, tab] @ ''NAME'' @ [tab, tab] @ ''MULTI-AZ SUPPORT'' @ [newline])
       # map format_row ys"
    using n by auto
  then show ?thesis
    using h by (auto simp: p d)
qed

subsection \<open>Failures of the fetch\<close>

text \<open>
  C4. When the fetch succeeds with an empty sequence, the procedure gives a warning to the
  reporter and exits with code 1 right after it; nothing is formatted into the table, not
  even the header, and nothing is flushed.
\<close>

theorem empty_fetch_warns_and_exits:
  assumes "fetched e = Some ([], None)"
  shows "run e fl =
           (prelude e @ [Warnf ''There are no regions available for this AWS account''],
            Exited 1)
         \<and> exit_code (snd (run e fl)) = 1
         \<and> table_lines (fst (run e fl)) = []
         \<and> Flush \<notin> set (fst (run e fl))"
  using assms
  by (simp add: run_empty table_lines_append table_lines_prelude prelude_def
           split: option.splits outcome.splits prod.splits)

theorem empty_fetch_warns_and_exits_witness:
  "fetched (example_env ([], None)) = Some ([], None)
   \<and> run (example_env ([], None)) \<lparr>Changed = False, multiAZ = False\<rparr> =
       ([Call OCM_Build, Call AWS_Build, Call AWS_GetAWSAccessKeys,
         Debugf ''Fetching regions'', Call Provider_GetRegions,
         Warnf ''There are no regions available for this AWS account''],
        Exited 1)"
proof -
  have h: "fetched (example_env ([], None)) = Some ([], None)"
    by (rule fetched_example)
  show ?thesis
    using h empty_fetch_warns_and_exits [OF h, of "\<lparr>Changed = False, multiAZ = False\<rparr>"]
    by (simp add: prelude_def example_env_def)
qed

text \<open>
  C5. When the fetch returns an error, the procedure reports a message that ends with the
  text of that error and exits with code 1 right after it; no table is printed.
\<close>

theorem fetch_error_reported_and_exits:
  assumes "fetched e = Some (regions, Some cause)"
  shows "run e fl = (prelude e @ [Errorf (''Failed to fetch regions: '' @ cause)], Exited 1)
         \<and> exit_code (snd (run e fl)) = 1
         \<and> table_lines (fst (run e fl)) = []
         \<and> Flush \<notin> set (fst (run e fl))"
  using assms
  by (simp add: run_fetch_error table_lines_append table_lines_prelude prelude_def
           split: option.splits outcome.splits prod.splits)

theorem fetch_error_reported_and_exits_witness:
  "fetched (example_env ([], Some ''connection refused'')) = Some ([], Some ''connection refused'')
   \<and> run (example_env ([], Some ''connection refused'')) \<lparr>Changed = False, multiAZ = False\<rparr> =
       ([Call OCM_Build, Call AWS_Build, Call AWS_GetAWSAccessKeys,
         Debugf ''Fetching regions'', Call Provider_GetRegions,
         Errorf ''Failed to fetch regions: connection refused''],
        Exited 1)"
proof -
  have h: "fetched (example_env ([], Some ''connection refused''))
             = Some ([], Some ''connection refused'')"
    by (rule fetched_example)
  show ?thesis
    using h fetch_error_reported_and_exits [OF h, of "\<lparr>Changed = False, multiAZ = False\<rparr>"]
    by (simp add: prelude_def example_env_def)
qed

subsection \<open>The deferred close\<close>

text \<open>
  The close of the connection runs when \<open>run\<close> returns or panics, and not on the paths
  that end in \<open>os.Exit\<close>. Whether the close fails has no influence on how \<open>run\<close> ends.
\<close>

lemma close_skipped_on_exit:
  assumes "snd (run e fl) = Exited n"
  shows "Call OCM_Close \<notin> set (fst (run e fl))"
  using assms
  by (auto simp: run_def body_def list_regions_def Let_def
           split: option.splits outcome.splits prod.splits ending.splits if_splits)

lemma close_runs_on_return_and_panic:
  assumes "ocm_Build e = None" and "snd (run e fl) = Returned \<or> snd (run e fl) = Panicked"
  shows "\<exists>t. fst (run e fl) = t @ deferred_close e"
  using assms
  by (auto simp: run_def Let_def split: prod.splits ending.splits)

lemma close_failure_keeps_ending:
  "snd (run (e\<lparr>ocm_Close := c\<rparr>) fl) = snd (run e fl)"
  by (simp add: run_def body_def Let_def
           split: option.splits outcome.splits prod.splits ending.splits)

text \<open>
  C6. The session, once acquired, is to be closed on every exit path, including the
  paths after a failed fetch and after an empty answer. On those two paths the procedure
  ends with \<open>os.Exit(1)\<close>, and the trace holds no call of \<open>Close\<close>: with every
  collaborator succeeding up to a fetch that fails, and up to a fetch that answers with
  no region, the connection stays open.
\<close>

theorem close_skipped_after_fetch_failure:
  "run (example_env ([], Some ''connection refused'')) \<lparr>Changed = False, multiAZ = False\<rparr> =
     ([Call OCM_Build, Call AWS_Build, Call AWS_GetAWSAccessKeys,
       Debugf ''Fetching regions'', Call Provider_GetRegions,
       Errorf ''Failed to fetch regions: connection refused''],
      Exited 1)
   \<and> run (example_env ([], None)) \<lparr>Changed = False, multiAZ = False\<rparr> =
     ([Call OCM_Build, Call AWS_Build, Call AWS_GetAWSAccessKeys,
       Debugf ''Fetching regions'', Call Provider_GetRegions,
       Warnf ''There are no regions available for this AWS account''],
      Exited 1)
   \<and> Call OCM_Close \<notin>
       set (fst (run (example_env ([], Some ''connection refused''))
                   \<lparr>Changed = False, multiAZ = False\<rparr>))
   \<and> Call OCM_Close \<notin>
       set (fst (run (example_env ([], None)) \<lparr>Changed = False, multiAZ = False\<rparr>))"
proof -
  have p: "prelude (example_env answer) =
             [Call OCM_Build, Call AWS_Build, Call AWS_GetAWSAccessKeys,
              Debugf ''Fetching regions'', Call Provider_GetRegions]" for answer
    by (simp add: prelude_def example_env_def)
  have "fetched (example_env ([], Some ''connection refused''))
          = Some ([], Some ''connection refused'')"
    by (rule fetched_example)
  then have 1: "run (example_env ([], Some ''connection refused''))
                  \<lparr>Changed = False, multiAZ = False\<rparr>
                = (prelude (example_env ([], Some ''connection refused''))
                   @ [Errorf (''Failed to fetch regions: '' @ ''connection refused'')], Exited 1)"
    by (rule run_fetch_error)
  have "fetched (example_env ([], None)) = Some ([], None)"
    by (rule fetched_example)
  then have 2: "run (example_env ([], None)) \<lparr>Changed = False, multiAZ = False\<rparr>
                = (prelude (example_env ([], None))
                   @ [Warnf ''There are no regions available for this AWS account''], Exited 1)"
    by (rule run_empty)
  show ?thesis
    by (simp add: 1 2 p)
qed

subsection \<open>Failures before the fetch\<close>

text \<open>
  C7. When building the OCM connection fails, the procedure reports the error and exits
  with code 1, which is not zero; it has done nothing else: no AWS client, no credential
  lookup, no fetch, no output.
\<close>

theorem connection_failure_ends_run:
  assumes "ocm_Build e = Some cause"
  shows "run e fl =
           ([Call OCM_Build, Errorf (''Failed to create OCM connection: '' @ cause)], Exited 1)
         \<and> exit_code (snd (run e fl)) \<noteq> 0"
  using assms by (simp add: run_def)

theorem connection_failure_ends_run_witness:
  "ocm_Build (example_env (example_regions, None)\<lparr>ocm_Build := Some ''not logged in''\<rparr>)
     = Some ''not logged in''
   \<and> run (example_env (example_regions, None)\<lparr>ocm_Build := Some ''not logged in''\<rparr>)
         \<lparr>Changed = False, multiAZ = False\<rparr>
     = ([Call OCM_Build, Errorf ''Failed to create OCM connection: not logged in''], Exited 1)"
proof -
  have h: "ocm_Build (example_env (example_regions, None)\<lparr>ocm_Build := Some ''not logged in''\<rparr>)
             = Some ''not logged in''"
    by simp
  show ?thesis
    using h connection_failure_ends_run [OF h, of "\<lparr>Changed = False, multiAZ = False\<rparr>"]
    by simp
qed

text \<open>
  C8. When the construction of the AWS client fails, the error is reported and the next
  thing the procedure does is to call \<open>GetAWSAccessKeys\<close>. When \<open>GetAWSAccessKeys\<close> returns
  an error, the error is reported and the next thing the procedure does is the debug
  message that precedes the fetch. In neither case does the procedure end at the report.
\<close>

theorem aws_failures_reported_not_fatal:
  "(ocm_Build e = None \<and> snd (aws_Build e) = Some cause \<longrightarrow>
      prefix [Call OCM_Build, Call AWS_Build,
              Errorf (''Failed to create AWS client: '' @ cause),
              Call AWS_GetAWSAccessKeys]
        (fst (run e fl)))
   \<and> (ocm_Build e = None \<and> GetAWSAccessKeys (fst (aws_Build e)) = Returns (k, Some cause') \<longrightarrow>
      prefix ([Call OCM_Build, Call AWS_Build]
              @ (case snd (aws_Build e) of
                   Some x \<Rightarrow> [Errorf (''Failed to create AWS client: '' @ x)]
                 | None \<Rightarrow> [])
              @ [Call AWS_GetAWSAccessKeys,
                 Errorf (''Failed to get access keys for user '' @ [CHR 0x27]
                           @ AdminUserName e @ [CHR 0x27] @ '': '' @ cause'),
                 Debugf ''Fetching regions''])
        (fst (run e fl)))"
  by (auto simp: run_def body_def list_regions_def Let_def
           split: option.splits outcome.splits prod.splits ending.splits if_splits)

theorem aws_failures_reported_not_fatal_witness:
  "ocm_Build failing_aws_env = None
   \<and> snd (aws_Build failing_aws_env) = Some ''no credentials''
   \<and> GetAWSAccessKeys (fst (aws_Build failing_aws_env))
       = Returns (Some \<lparr>AccessKeyID = [], SecretAccessKey = []\<rparr>, Some ''stack not found'')
   \<and> prefix [Call OCM_Build, Call AWS_Build,
              Errorf ''Failed to create AWS client: no credentials'',
              Call AWS_GetAWSAccessKeys,
              Errorf (''Failed to get access keys for user '' @ [CHR 0x27] @ ''osdCcsAdmin''
                        @ [CHR 0x27] @ '': stack not found''),
              Debugf ''Fetching regions'']
        (fst (run failing_aws_env \<lparr>Changed = False, multiAZ = False\<rparr>))"
proof -
  have h: "ocm_Build failing_aws_env = None
           \<and> snd (aws_Build failing_aws_env) = Some ''no credentials''
           \<and> GetAWSAccessKeys (fst (aws_Build failing_aws_env))
               = Returns (Some \<lparr>AccessKeyID = [], SecretAccessKey = []\<rparr>, Some ''stack not found'')"
    by (simp add: failing_aws_env_def example_env_def)
  have n: "AdminUserName failing_aws_env = ''osdCcsAdmin''"
    by (simp add: failing_aws_env_def example_env_def)
  show ?thesis
    using h n
      aws_failures_reported_not_fatal
        [of failing_aws_env "''no credentials''" "\<lparr>Changed = False, multiAZ = False\<rparr>"
            "Some \<lparr>AccessKeyID = [], SecretAccessKey = []\<rparr>" "''stack not found''"]
    by simp
qed

subsection \<open>The table\<close>

text \<open>
  C9. For every non-empty fetched sequence, what the procedure formats into the table and
  flushes to standard output is the header line with the columns \<open>ID\<close>, \<open>NAME\<close> and
  \<open>MULTI-AZ SUPPORT\<close>, followed by one line for each region that passes the filter, in
  order, made of its id, its display name and its multi-AZ support as \<open>true\<close> or
  \<open>false\<close>.
\<close>

theorem table_header_and_rows:
  assumes "fetched e = Some (regions, None)" and "regions \<noteq> []"
  shows "fst (run e fl) =
           prelude e
           @ map Fprintf
               ((''ID'' @ [tab, tab] @ ''NAME'' @ [tab, tab] @ ''MULTI-AZ SUPPORT'' @ [newline])
                # map (\<lambda>r. ID r @ [tab, tab] @ DisplayName r @ [tab, tab]
                              @ (if SupportsMultiAZ r then ''true'' else ''false'') @ [newline])
                    (filter (\<lambda>r. Enabled r \<and> (Changed fl \<longrightarrow> SupportsMultiAZ r = multiAZ fl))
                       regions))
           @ [Flush] @ deferred_close e"
proof -
  have rows: "print_regions fl regions =
                map Fprintf
                  (map (\<lambda>r. ID r @ [tab, tab] @ DisplayName r @ [tab, tab]
                              @ (if SupportsMultiAZ r then ''true'' else ''false'') @ [newline])
                     (filter (\<lambda>r. Enabled r \<and> (Changed fl \<longrightarrow> SupportsMultiAZ r = multiAZ fl))
                        regions))"
    by (simp add: print_regions_filter format_row_def format_bool_def o_def)
  have "fst (run e fl) =
          prelude e @ Fprintf header # print_regions fl regions @ [Flush] @ deferred_close e"
    using assms by (simp add: run_table)
  then show ?thesis
    by (simp add: rows header_def)
qed

theorem table_header_and_rows_witness:
  "fetched (example_env (example_regions, None)) = Some (example_regions, None)
   \<and> example_regions \<noteq> []
   \<and> fst (run (example_env (example_regions, None)) \<lparr>Changed = True, multiAZ = False\<rparr>) =
       [Call OCM_Build, Call AWS_Build, Call AWS_GetAWSAccessKeys,
        Debugf ''Fetching regions'', Call Provider_GetRegions,
        Fprintf (''ID'' @ [tab, tab] @ ''NAME'' @ [tab, tab] @ ''MULTI-AZ SUPPORT'' @ [newline]),
        Fprintf (''eu-west-1'' @ [tab, tab] @ ''EU West'' @ [tab, tab] @ ''false'' @ [newline]),
        Flush, Call OCM_Close]"
proof -
  have h: "fetched (example_env (example_regions, None)) = Some (example_regions, None)"
    by (rule fetched_example)
  have n: "example_regions \<noteq> []"
    by (simp add: example_regions_def)
  have p: "prelude (example_env answer) =
             [Call OCM_Build, Call AWS_Build, Call AWS_GetAWSAccessKeys,
              Debugf ''Fetching regions'', Call Provider_GetRegions]" for answer
    by (simp add: prelude_def example_env_def)
  have d: "deferred_close (example_env answer) = [Call OCM_Close]" for answer
    by (simp add: deferred_close_def example_env_def)
  show ?thesis
    using h n table_header_and_rows [OF h n, of "\<lparr>Changed = True, multiAZ = False\<rparr>"]
    by (simp add: p d example_regions_def)
qed

text \<open>
  C10. When the fetched sequence is not empty and the filter drops every region of it, the
  procedure still prints the header, prints no data row, flushes, and returns, so that the
  process ends with exit code 0.
\<close>

theorem all_filtered_prints_header_only:
  assumes "fetched e = Some (regions, None)" and "regions \<noteq> []"
    and "\<forall>r \<in> set regions. \<not> Enabled r \<or> (Changed fl \<and> multiAZ fl \<noteq> SupportsMultiAZ r)"
  shows "run e fl = (prelude e @ [Fprintf header, Flush] @ deferred_close e, Returned)
         \<and> exit_code (snd (run e fl)) = 0
         \<and> table_lines (fst (run e fl)) = [header]
         \<and> printed_rows (fst (run e fl)) = []"
proof -
  have "filter (\<lambda>r. Enabled r \<and> (Changed fl \<longrightarrow> SupportsMultiAZ r = multiAZ fl)) regions = []"
    using assms(3) by (auto simp: filter_empty_conv)
  then have "print_regions fl regions = []"
    by (simp add: print_regions_filter)
  then show ?thesis
    using assms(1,2)
    by (simp add: run_table table_lines_append table_lines_prelude table_lines_deferred_close
          printed_rows_def)
qed

theorem all_filtered_prints_header_only_witness:
  "fetched (example_env (disabled_regions, None)) = Some (disabled_regions, None)
   \<and> disabled_regions \<noteq> []
   \<and> map Enabled disabled_regions = [False, True]
   \<and> map SupportsMultiAZ disabled_regions = [True, False]
   \<and> run (example_env (disabled_regions, None)) \<lparr>Changed = True, multiAZ = True\<rparr> =
       ([Call OCM_Build, Call AWS_Build, Call AWS_GetAWSAccessKeys,
         Debugf ''Fetching regions'', Call Provider_GetRegions,
         Fprintf header, Flush, Call OCM_Close],
        Returned)
   \<and> exit_code (snd (run (example_env (disabled_regions, None))
                        \<lparr>Changed = True, multiAZ = True\<rparr>)) = 0"
proof -
  have h: "fetched (example_env (disabled_regions, None)) = Some (disabled_regions, None)"
    by (rule fetched_example)
  have n: "disabled_regions \<noteq> []"
    by (simp add: disabled_regions_def)
  have f: "\<forall>r \<in> set disabled_regions.
             \<not> Enabled r
             \<or> (Changed \<lparr>Changed = True, multiAZ = True\<rparr>
                \<and> multiAZ \<lparr>Changed = True, multiAZ = True\<rparr> \<noteq> SupportsMultiAZ r)"
    by (simp add: disabled_regions_def)
  have p: "prelude (example_env answer) =
             [Call OCM_Build, Call AWS_Build, Call AWS_GetAWSAccessKeys,
              Debugf ''Fetching regions'', Call Provider_GetRegions]" for answer
    by (simp add: prelude_def example_env_def)
  have d: "deferred_close (example_env answer) = [Call OCM_Close]" for answer
    by (simp add: deferred_close_def example_env_def)
  have m: "map Enabled disabled_regions = [False, True]
           \<and> map SupportsMultiAZ disabled_regions = [True, False]"
    by (simp add: disabled_regions_def)
  show ?thesis
    using h n m all_filtered_prints_header_only [OF h n f]
    by (simp add: p d)
qed

end
